theory Spec2Isabelle
  imports Main "HOL-Library.AList" "HOL-Library.Word"
begin

section \<open>Go strings\<close>

text \<open>
  A Go string is a sequence of bytes, modelled as \<^typ>\<open>string\<close>; a rune is an \<^typ>\<open>int\<close>.
  \<^verbatim>\<open>strings.ToLower\<close> and \<^verbatim>\<open>strings.TrimSpace\<close> read the bytes as UTF-8, so the
  decoding comes first. The other functions of package \<^verbatim>\<open>strings\<close> that the service
  calls compare bytes.
\<close>

subsection \<open>UTF-8\<close>

text \<open>
  \<^verbatim>\<open>utf8.DecodeRuneInString\<close>: the first rune of a string and the number of bytes it
  takes. A lead byte \<^verbatim>\<open>C2..DF\<close> starts two bytes, \<^verbatim>\<open>E0..EF\<close> three, \<^verbatim>\<open>F0..F4\<close>
  four; the second byte must lie in the range that its lead byte accepts (which excludes
  overlong forms, surrogates and values above \<^verbatim>\<open>U+10FFFF\<close>), the others in \<^verbatim>\<open>80..BF\<close>.
  Anything else is \<^verbatim>\<open>(RuneError, 1)\<close>.
\<close>

definition RuneError :: int where
  "RuneError = 0xFFFD"

definition isContinuation :: "char \<Rightarrow> bool" where
  "isContinuation c = (128 \<le> (of_char c :: int) \<and> (of_char c :: int) \<le> 191)"

definition acceptLo :: "int \<Rightarrow> int" where
  "acceptLo b0 = (if b0 = 224 then 160 else if b0 = 240 then 144 else 128)"

definition acceptHi :: "int \<Rightarrow> int" where
  "acceptHi b0 = (if b0 = 237 then 159 else if b0 = 244 then 143 else 191)"

definition DecodeRune :: "string \<Rightarrow> int \<times> nat" where
  "DecodeRune s =
     (case s of
        [] \<Rightarrow> (RuneError, 0)
      | c0 # rest \<Rightarrow>
     (let b0 = (of_char c0 :: int) in
      if b0 < 128 then (b0, 1)
      else if 194 \<le> b0 \<and> b0 \<le> 223 then
        (case rest of
           c1 # _ \<Rightarrow>
             if acceptLo b0 \<le> of_char c1 \<and> (of_char c1 :: int) \<le> acceptHi b0
             then ((b0 - 192) * 64 + (of_char c1 - 128), 2)
             else (RuneError, 1)
         | [] \<Rightarrow> (RuneError, 1))
      else if 224 \<le> b0 \<and> b0 \<le> 239 then
        (case rest of
           c1 # c2 # _ \<Rightarrow>
             if acceptLo b0 \<le> of_char c1 \<and> (of_char c1 :: int) \<le> acceptHi b0 \<and>
                isContinuation c2
             then ((b0 - 224) * 4096 + (of_char c1 - 128) * 64 + (of_char c2 - 128), 3)
             else (RuneError, 1)
         | _ \<Rightarrow> (RuneError, 1))
      else if 240 \<le> b0 \<and> b0 \<le> 244 then
        (case rest of
           c1 # c2 # c3 # _ \<Rightarrow>
             if acceptLo b0 \<le> of_char c1 \<and> (of_char c1 :: int) \<le> acceptHi b0 \<and>
                isContinuation c2 \<and> isContinuation c3
             then ((b0 - 240) * 262144 + (of_char c1 - 128) * 4096 +
                   (of_char c2 - 128) * 64 + (of_char c3 - 128), 4)
             else (RuneError, 1)
         | _ \<Rightarrow> (RuneError, 1))
      else (RuneError, 1)))"

text \<open>
  \<^verbatim>\<open>utf8.DecodeLastRuneInString\<close>, on the reversed string: a last byte below 128 is
  the rune; otherwise the start of the rune is looked for among the three bytes before
  it, the bytes from there are decoded, and the result counts only if it ends exactly at
  the end of the string.
\<close>

definition RuneStart :: "char \<Rightarrow> bool" where
  "RuneStart c = (\<not> isContinuation c)"

definition checkLast :: "int \<times> nat \<Rightarrow> nat \<Rightarrow> int \<times> nat" where
  "checkLast decoded k = (if snd decoded = k then decoded else (RuneError, 1))"

definition DecodeLastRune_rev :: "string \<Rightarrow> int \<times> nat" where
  "DecodeLastRune_rev s =
     (case s of
        [] \<Rightarrow> (RuneError, 0)
      | c # prev \<Rightarrow>
     (if (of_char c :: int) < 128 then (of_char c, 1)
      else
        (case prev of
           [] \<Rightarrow> (RuneError, 1)
         | p1 # prev1 \<Rightarrow>
             if RuneStart p1 then checkLast (DecodeRune [p1, c]) 2
             else
               (case prev1 of
                  [] \<Rightarrow> (RuneError, 1)
                | p2 # prev2 \<Rightarrow>
                    if RuneStart p2 then checkLast (DecodeRune [p2, p1, c]) 3
                    else
                      (case prev2 of
                         [] \<Rightarrow> (RuneError, 1)
                       | p3 # _ \<Rightarrow>
                           if RuneStart p3 then checkLast (DecodeRune [p3, p2, p1, c]) 4
                           else (RuneError, 1))))))"

text \<open>\<^verbatim>\<open>utf8.AppendRune\<close>: surrogates and values above \<^verbatim>\<open>U+10FFFF\<close> are written as
  \<^verbatim>\<open>RuneError\<close>.\<close>

definition EncodeRune :: "int \<Rightarrow> string" where
  "EncodeRune r =
     (if r \<le> 127 then [char_of r]
      else if r \<le> 2047 then [char_of (192 + r div 64), char_of (128 + r mod 64)]
      else if r > 1114111 \<or> (55296 \<le> r \<and> r \<le> 57343) then
        [char_of (239 :: int), char_of (191 :: int), char_of (189 :: int)]
      else if r \<le> 65535 then
        [char_of (224 + r div 4096), char_of (128 + (r div 64) mod 64), char_of (128 + r mod 64)]
      else
        [char_of (240 + r div 262144), char_of (128 + (r div 4096) mod 64),
         char_of (128 + (r div 64) mod 64), char_of (128 + r mod 64)])"

subsection \<open>Lower case\<close>

text \<open>
  \<^verbatim>\<open>strings.Map(mapping, s)\<close> for a mapping without negative results: every rune of
  \<open>s\<close>, an invalid byte read as \<^verbatim>\<open>RuneError\<close>, is replaced by the encoding of its image.
\<close>

fun Map_string :: "(int \<Rightarrow> int) \<Rightarrow> string \<Rightarrow> string" where
  "Map_string mapping [] = []"
| "Map_string mapping (c # rest) =
     (case DecodeRune (c # rest) of
        (r, width) \<Rightarrow> EncodeRune (mapping r) @ Map_string mapping (drop (width - 1) rest))"

text \<open>
  \<^verbatim>\<open>unicode.ToLower\<close> handles ASCII itself and looks every other rune up in the case
  tables of package \<^verbatim>\<open>unicode\<close>. The tables are the parameter \<open>caseTable\<close> of everything
  that lowercases a string. \<^verbatim>\<open>strings.ToLower\<close> maps the bytes when the string is ASCII
  and goes through \<^verbatim>\<open>strings.Map\<close> otherwise.
\<close>

definition toLowerByte :: "char \<Rightarrow> char" where
  "toLowerByte c =
     (let n = (of_char c :: int) in if 65 \<le> n \<and> n \<le> 90 then char_of (n + 32) else c)"

definition unicode_ToLower :: "(int \<Rightarrow> int) \<Rightarrow> int \<Rightarrow> int" where
  "unicode_ToLower caseTable r =
     (if r \<le> 127 then (if 65 \<le> r \<and> r \<le> 90 then r + 32 else r) else caseTable r)"

definition ToLower :: "(int \<Rightarrow> int) \<Rightarrow> string \<Rightarrow> string" where
  "ToLower caseTable s =
     (if list_all (\<lambda>c. (of_char c :: int) < 128) s then map toLowerByte s
      else Map_string (unicode_ToLower caseTable) s)"

subsection \<open>White space\<close>

text \<open>\<^verbatim>\<open>unicode.IsSpace\<close>: the six ASCII white-space characters, \<^verbatim>\<open>U+0085\<close>, \<^verbatim>\<open>U+00A0\<close>
  and the other code points with the property \<^verbatim>\<open>White_Space\<close>.\<close>

definition isSpace :: "int \<Rightarrow> bool" where
  "isSpace r =
     (r \<in> set [0x09, 0x0A, 0x0B, 0x0C, 0x0D, 0x20, 0x85, 0xA0, 0x1680, 0x2028, 0x2029,
                0x202F, 0x205F, 0x3000] \<or>
      (0x2000 \<le> r \<and> r \<le> 0x200A))"

text \<open>
  \<^verbatim>\<open>strings.TrimSpace\<close> removes the white-space runes at both ends: its loops over
  ASCII bytes hand over to \<^verbatim>\<open>TrimFunc\<close> and \<^verbatim>\<open>TrimRightFunc\<close> with \<^verbatim>\<open>unicode.IsSpace\<close>
  at the first byte from 128 on, and these stop at the first rune that is not white
  space (an invalid byte is \<^verbatim>\<open>RuneError\<close>, which is not).
\<close>

fun TrimLeftSpace :: "string \<Rightarrow> string" where
  "TrimLeftSpace [] = []"
| "TrimLeftSpace (c # rest) =
     (case DecodeRune (c # rest) of
        (r, width) \<Rightarrow> if isSpace r then TrimLeftSpace (drop (width - 1) rest) else c # rest)"

fun TrimRightSpace_rev :: "string \<Rightarrow> string" where
  "TrimRightSpace_rev [] = []"
| "TrimRightSpace_rev (c # prev) =
     (case DecodeLastRune_rev (c # prev) of
        (r, width) \<Rightarrow>
          if isSpace r then TrimRightSpace_rev (drop (width - 1) prev) else c # prev)"

definition TrimSpace :: "string \<Rightarrow> string" where
  "TrimSpace s = rev (TrimRightSpace_rev (rev (TrimLeftSpace s)))"

subsection \<open>Functions on bytes\<close>

text \<open>\<^verbatim>\<open>strings.Trim(s, cutset)\<close> for a cutset of ASCII characters removes every leading
  and trailing byte that occurs in the cutset.\<close>

definition Trim :: "string \<Rightarrow> string \<Rightarrow> string" where
  "Trim s cutset =
     rev (dropWhile (\<lambda>c. c \<in> set cutset) (rev (dropWhile (\<lambda>c. c \<in> set cutset) s)))"

definition HasPrefix :: "string \<Rightarrow> string \<Rightarrow> bool" where
  "HasPrefix s p = (length p \<le> length s \<and> take (length p) s = p)"

definition HasSuffix :: "string \<Rightarrow> string \<Rightarrow> bool" where
  "HasSuffix s p = (length p \<le> length s \<and> drop (length s - length p) s = p)"

definition TrimPrefix :: "string \<Rightarrow> string \<Rightarrow> string" where
  "TrimPrefix s p = (if HasPrefix s p then drop (length p) s else s)"

fun Contains :: "string \<Rightarrow> string \<Rightarrow> bool" where
  "Contains [] substr = (substr = [])"
| "Contains (c # cs) substr = (HasPrefix (c # cs) substr \<or> Contains cs substr)"

text \<open>\<^verbatim>\<open>strings.Split(s, sep)\<close> for a separator of one byte (the service only splits at
  \<^verbatim>\<open>"\n"\<close>): the pieces between the separators, so the result is never empty and
  \<^verbatim>\<open>Split("", sep)\<close> is one empty piece.\<close>

fun Split :: "string \<Rightarrow> char \<Rightarrow> string list" where
  "Split [] sep = [[]]"
| "Split (c # cs) sep =
     (if c = sep then [] # Split cs sep
      else (case Split cs sep of [] \<Rightarrow> [[c]] | piece # pieces \<Rightarrow> (c # piece) # pieces))"

fun Join :: "string list \<Rightarrow> string \<Rightarrow> string" where
  "Join [] sep = []"
| "Join [x] sep = x"
| "Join (x # y # ys) sep = x @ sep @ Join (y # ys) sep"

section \<open>Requests and responses\<close>

record SongStructure =
  Verses :: int
  Chorus :: bool
  Bridge :: bool

record LyricsRequest =
  Keywords :: "string list"
  Genre :: string
  Emotion :: string
  Language :: string
  Structure :: SongStructure

text \<open>
  \<^verbatim>\<open>GeneratedLyrics.Structure\<close> is a Go \<^verbatim>\<open>map[string]string\<close>. It is kept as an
  association list with one pair per key, so that \<^verbatim>\<open>len(structure) == 0\<close> is a
  computable test; \<^verbatim>\<open>structure[k] = v\<close> is \<^const>\<open>AList.update\<close> and a lookup is
  \<^const>\<open>map_of\<close>. The field is named \<open>Structure_lyrics\<close> because \<open>Structure\<close> is the
  field of the request.
\<close>

record GeneratedLyrics =
  Title :: string
  Structure_lyrics :: "(string \<times> string) list"

section \<open>The section parser\<close>

text \<open>The local variables of \<^verbatim>\<open>parseLyrics\<close> that the loop over the lines updates
  (\<open>structure\<close> is a reserved word of Isabelle, hence \<open>structure_map\<close>).\<close>

record parse_state =
  structure_map :: "(string \<times> string) list"
  title :: string
  currentSection :: string
  currentContent :: "string list"

definition parse_init :: parse_state where
  "parse_init =
     \<lparr>structure_map = [], title = ''Untitled Song'', currentSection = [], currentContent = []\<rparr>"

text \<open>The test \<^verbatim>\<open>strings.HasPrefix(line, "[") && strings.HasSuffix(line, "]")\<close>.\<close>

definition isHeader :: "string \<Rightarrow> bool" where
  "isHeader line = (HasPrefix line ''['' \<and> HasSuffix line '']'')"

text \<open>\<^verbatim>\<open>sectionName := strings.ToLower(strings.Trim(line, "[]"))\<close>.\<close>

definition sectionNameOf :: "(int \<Rightarrow> int) \<Rightarrow> string \<Rightarrow> string" where
  "sectionNameOf caseTable line = ToLower caseTable (Trim line ''[]'')"

text \<open>\<^verbatim>\<open>if currentSection != "" && len(currentContent) > 0 { structure[currentSection] =
  strings.Join(currentContent, "\n") }\<close>, which the source runs at every header and once
  more after the loop.\<close>

definition saveSection :: "parse_state \<Rightarrow> (string \<times> string) list" where
  "saveSection s =
     (if currentSection s \<noteq> [] \<and> length (currentContent s) > 0
      then AList.update (currentSection s) (Join (currentContent s) ''\<newline>'') (structure_map s)
      else structure_map s)"

text \<open>One iteration of the loop body, on the raw (untrimmed) line.\<close>

definition parseLine :: "(int \<Rightarrow> int) \<Rightarrow> parse_state \<Rightarrow> string \<Rightarrow> parse_state" where
  "parseLine caseTable s raw =
     (let line = TrimSpace raw in
      if line = [] then s
      else if isHeader line then
        (let s1 = s\<lparr>structure_map := saveSection s\<rparr>;
             sectionName = sectionNameOf caseTable line
         in if HasPrefix sectionName ''title:''
            then s1\<lparr>title := TrimSpace (TrimPrefix sectionName ''title:''),
                    currentSection := []\<rparr>
            else s1\<lparr>currentSection := sectionName, currentContent := []\<rparr>)
      else if currentSection s \<noteq> [] then s\<lparr>currentContent := currentContent s @ [line]\<rparr>
      else s)"

fun parseLines :: "(int \<Rightarrow> int) \<Rightarrow> parse_state \<Rightarrow> string list \<Rightarrow> parse_state" where
  "parseLines caseTable s [] = s"
| "parseLines caseTable s (raw # rest) = parseLines caseTable (parseLine caseTable s raw) rest"

text \<open>The loop over \<^verbatim>\<open>strings.Split(text, "\n")\<close> followed by "save last section".\<close>

definition parseSections :: "(int \<Rightarrow> int) \<Rightarrow> string \<Rightarrow> parse_state" where
  "parseSections caseTable text =
     (let s = parseLines caseTable parse_init (Split text (CHR 0x0A))
      in s\<lparr>structure_map := saveSection s\<rparr>)"

text \<open>\<^verbatim>\<open>parseLyrics(text, req)\<close>; the method does not read its receiver, nor \<open>req\<close>.\<close>

definition parseLyrics :: "(int \<Rightarrow> int) \<Rightarrow> string \<Rightarrow> LyricsRequest \<Rightarrow> GeneratedLyrics" where
  "parseLyrics caseTable text req =
     (let s = parseSections caseTable text;
          structure' = (if length (structure_map s) = 0
                        then AList.update ''verse1'' text (structure_map s) else structure_map s)
      in \<lparr>Title = title s, Structure_lyrics = structure'\<rparr>)"

section \<open>Redaction of log values\<close>

text \<open>
  The repository holds two functions \<^verbatim>\<open>sanitizeForLogging\<close>, one per program: the
  service that calls the vendor with an API key, and the services that go through the
  gateway with OAuth. The loop over the prefixes returns at the first prefix that
  matches, which is \<^const>\<open>list_ex\<close>.
\<close>

definition sanitizeForLogging_apikey :: "(int \<Rightarrow> int) \<Rightarrow> string \<Rightarrow> string" where
  "sanitizeForLogging_apikey caseTable input =
     (if Contains (ToLower caseTable input) ''bearer '' then ''[REDACTED_API_KEY]''
      else if HasPrefix (ToLower caseTable input) ''sk-'' then ''[REDACTED_API_KEY]''
      else if list_ex (\<lambda>prefix. HasPrefix (ToLower caseTable input) prefix)
                [''sk-'', ''pk-'', ''api_'', ''token_'']
           then ''[REDACTED_API_KEY]''
      else input)"

definition sanitizeForLogging_oauth :: "(int \<Rightarrow> int) \<Rightarrow> string \<Rightarrow> string" where
  "sanitizeForLogging_oauth caseTable input =
     (if Contains (ToLower caseTable input) ''bearer '' then ''[REDACTED_BEARER_TOKEN]''
      else if HasPrefix (ToLower caseTable input) ''sk-'' then ''[REDACTED_API_KEY]''
      else if list_ex (\<lambda>prefix. HasPrefix (ToLower caseTable input) prefix)
                [''sk-'', ''pk-'', ''api_'', ''token_'', ''ey'', ''access_token'']
           then ''[REDACTED_TOKEN]''
      else if length input > 20 \<and>
              (Contains (ToLower caseTable input) ''secret'' \<or>
               Contains (ToLower caseTable input) ''client'')
           then ''[REDACTED_CREDENTIALS]''
      else input)"

section \<open>The OAuth token cache\<close>

text \<open>
  An instant is a number of nanoseconds on the clock's axis. A \<^verbatim>\<open>time.Duration\<close> is an
  \<^verbatim>\<open>int64\<close> of nanoseconds, so the product \<^verbatim>\<open>time.Duration(expiresIn) * time.Second\<close>
  wraps around; \<^verbatim>\<open>int\<close> is taken at its 64-bit width.
\<close>

type_synonym time = int
type_synonym Duration = "64 word"

definition Second :: Duration where
  "Second = 1000000000"

definition Add :: "time \<Rightarrow> Duration \<Rightarrow> time" where
  "Add t d = t + sint d"

definition Before :: "time \<Rightarrow> time \<Rightarrow> bool" where
  "Before t u = (t < u)"

record OAuthTokenResponse =
  AccessToken :: string
  TokenType :: string
  ExpiresIn :: "64 word"
  Scope :: string
  Error :: string
  ErrorDesc :: string

text \<open>The fields of \<^verbatim>\<open>OAuthClient\<close> without the HTTP client and the lock. The
  receiver \<^verbatim>\<open>o\<close> of its methods is written \<open>oc\<close>.\<close>

record OAuthClient =
  tokenEndpoint :: string
  clientID :: string
  clientSecret :: string
  scope :: string
  accessToken :: string
  expiresAt :: time

text \<open>
  What happens outside the function during one run of \<^verbatim>\<open>requestNewToken\<close>:
  \<^verbatim>\<open>http.NewRequestWithContext\<close> returns an error (the token endpoint is not a URL),
  \<^verbatim>\<open>httpClient.Do\<close> returns an error, \<^verbatim>\<open>io.ReadAll\<close> returns an error after a
  response with a status code has arrived, or a response with a status code arrives.
  Its body is then given to \<^verbatim>\<open>json.Unmarshal\<close>, which returns an error when the body is
  not JSON (\<open>Responds status None\<close>), returns an error when the body is JSON that does
  not fit the fields of \<^verbatim>\<open>OAuthTokenResponse\<close>, such as a string for \<^verbatim>\<open>expires_in\<close>
  (\<open>RespondsIllTyped\<close>), or decodes the body.
\<close>

datatype exchange =
    NewRequestFails
  | DoFails
  | ReadAllFails int
  | Responds int "OAuthTokenResponse option"
  | RespondsIllTyped int

datatype auth_error =
    CreateRequestFailed
  | TokenRequestFailed
  | ReadResponseFailed
  | ParseResponseFailed
  | OAuthError string string
  | StatusNot200 int
  | EmptyAccessToken

text \<open>A call returns its Go result, leaves the client in a state, and has called
  \<^verbatim>\<open>httpClient.Do\<close> \<open>httpCalls\<close> times.\<close>

record token_result =
  result :: "auth_error + string"
  client :: OAuthClient
  httpCalls :: nat

definition requestNewToken :: "time \<Rightarrow> exchange \<Rightarrow> OAuthClient \<Rightarrow> token_result" where
  "requestNewToken now ex oc =
     (case ex of
        NewRequestFails \<Rightarrow> \<lparr>result = Inl CreateRequestFailed, client = oc, httpCalls = 0\<rparr>
      | DoFails \<Rightarrow> \<lparr>result = Inl TokenRequestFailed, client = oc, httpCalls = 1\<rparr>
      | ReadAllFails status \<Rightarrow> \<lparr>result = Inl ReadResponseFailed, client = oc, httpCalls = 1\<rparr>
      | RespondsIllTyped status \<Rightarrow>
          \<lparr>result = Inl ParseResponseFailed, client = oc, httpCalls = 1\<rparr>
      | Responds status parsed \<Rightarrow>
          (case parsed of
             None \<Rightarrow> \<lparr>result = Inl ParseResponseFailed, client = oc, httpCalls = 1\<rparr>
           | Some tokenResp \<Rightarrow>
               if Error tokenResp \<noteq> [] then
                 \<lparr>result = Inl (OAuthError (Error tokenResp) (ErrorDesc tokenResp)),
                  client = oc, httpCalls = 1\<rparr>
               else if status \<noteq> 200 then
                 \<lparr>result = Inl (StatusNot200 status), client = oc, httpCalls = 1\<rparr>
               else if AccessToken tokenResp = [] then
                 \<lparr>result = Inl EmptyAccessToken, client = oc, httpCalls = 1\<rparr>
               else
                 (let expiresIn = (if sint (ExpiresIn tokenResp) \<le> 0 then 3600
                                   else ExpiresIn tokenResp);
                      oc' = oc\<lparr>accessToken := AccessToken tokenResp,
                              expiresAt := Add now (expiresIn * Second)\<rparr>
                  in \<lparr>result = Inr (accessToken oc'), client = oc', httpCalls = 1\<rparr>)))"

text \<open>\<^verbatim>\<open>o.accessToken != "" && time.Now().Add(30*time.Second).Before(o.expiresAt)\<close>,
  with the reading of the clock as \<open>now\<close>.\<close>

definition tokenFresh :: "time \<Rightarrow> OAuthClient \<Rightarrow> bool" where
  "tokenFresh now oc = (accessToken oc \<noteq> [] \<and> Before (Add now (30 * Second)) (expiresAt oc))"

text \<open>
  \<^verbatim>\<open>GetAccessToken\<close>. The first check runs under the read lock on the client \<open>oc1\<close>
  at the clock reading \<open>now1\<close>. The lock is then released, so other callers may
  refresh the token: \<open>oc2\<close> is the client as it is found under the write lock (it is
  \<open>oc1\<close> when nobody else ran), checked at \<open>now2\<close>. \<open>now3\<close> is the clock inside
  \<^verbatim>\<open>requestNewToken\<close>.
\<close>

definition GetAccessToken ::
  "time \<Rightarrow> time \<Rightarrow> time \<Rightarrow> exchange \<Rightarrow> OAuthClient \<Rightarrow> OAuthClient \<Rightarrow> token_result" where
  "GetAccessToken now1 now2 now3 ex oc1 oc2 =
     (if tokenFresh now1 oc1
      then \<lparr>result = Inr (accessToken oc1), client = oc1, httpCalls = 0\<rparr>
      else if tokenFresh now2 oc2
      then \<lparr>result = Inr (accessToken oc2), client = oc2, httpCalls = 0\<rparr>
      else requestNewToken now3 ex oc2)"

section \<open>The request handler\<close>

text \<open>\<^verbatim>\<open>ValidGenres[k]\<close> on a \<^verbatim>\<open>map[string]bool\<close> is \<^verbatim>\<open>false\<close> for a key that is
  not in the map, and every key of the three maps is stored with \<^verbatim>\<open>true\<close>.\<close>

definition ValidGenres :: "string \<Rightarrow> bool" where
  "ValidGenres k = (k \<in> set [''pop'', ''rock'', ''country'', ''hip-hop'', ''r&b'', ''jazz'',
     ''folk'', ''electronic'', ''classical'', ''reggae'', ''blues'', ''indie''])"

definition ValidEmotions :: "string \<Rightarrow> bool" where
  "ValidEmotions k = (k \<in> set [''happy'', ''sad'', ''romantic'', ''energetic'', ''melancholic'',
     ''hopeful'', ''nostalgic'', ''peaceful'', ''excited'', ''contemplative''])"

definition ValidLanguages :: "string \<Rightarrow> bool" where
  "ValidLanguages k = (k \<in> set [''english'', ''spanish'', ''french'', ''german'', ''italian'',
     ''portuguese'', ''japanese'', ''korean''])"

text \<open>
  The \<^verbatim>\<open>binding\<close> tags of \<^verbatim>\<open>LyricsRequest\<close> and \<^verbatim>\<open>SongStructure\<close>, which gin's validator
  checks on the decoded request: \<^verbatim>\<open>required,min=1,max=10\<close> on the keywords (a slice that
  is present, with 1 to 10 elements), \<^verbatim>\<open>required\<close> on genre, emotion and language (not
  the empty string), \<^verbatim>\<open>min=1,max=4\<close> on the verses of the nested structure. The last tag
  has no \<^verbatim>\<open>omitempty\<close>, so it also applies to the zero value of a request that leaves the
  verses, or the whole structure, out.
\<close>

definition bindingValid :: "LyricsRequest \<Rightarrow> bool" where
  "bindingValid req =
     (1 \<le> length (Keywords req) \<and> length (Keywords req) \<le> 10 \<and>
      Genre req \<noteq> [] \<and> Emotion req \<noteq> [] \<and> Language req \<noteq> [] \<and>
      1 \<le> Verses (Structure req) \<and> Verses (Structure req) \<le> 4)"

text \<open>
  \<^verbatim>\<open>c.ShouldBindJSON(&req)\<close>. The argument is what decoding the body as JSON into a
  \<^verbatim>\<open>LyricsRequest\<close> gave: the decoder's error, or the request, in which a field that the
  body leaves out has its zero value. The decoded request is then validated.
\<close>

definition ShouldBindJSON :: "string + LyricsRequest \<Rightarrow> string + LyricsRequest" where
  "ShouldBindJSON decoded =
     (case decoded of
        Inl err \<Rightarrow> Inl err
      | Inr req \<Rightarrow> if bindingValid req then Inr req else Inl ''validation failed'')"

text \<open>
  The handler \<^verbatim>\<open>generateLyrics\<close> up to its call of \<^verbatim>\<open>service.GenerateLyrics\<close>. The
  result is the \<^verbatim>\<open>Error\<close> code of the 400 response, or the request that is handed to the
  service.
\<close>

definition generateLyrics_request ::
  "(int \<Rightarrow> int) \<Rightarrow> string + LyricsRequest \<Rightarrow> string + LyricsRequest" where
  "generateLyrics_request caseTable decoded =
     (case ShouldBindJSON decoded of
        Inl err \<Rightarrow> Inl ''invalid_request''
      | Inr req \<Rightarrow>
          if \<not> ValidGenres (ToLower caseTable (Genre req)) then Inl ''invalid_genre''
          else if \<not> ValidEmotions (ToLower caseTable (Emotion req)) then Inl ''invalid_emotion''
          else if \<not> ValidLanguages (ToLower caseTable (Language req)) then Inl ''invalid_language''
          else
            (let req1 = (if Verses (Structure req) = 0
                         then req\<lparr>Structure := (Structure req)\<lparr>Verses := 2\<rparr>\<rparr> else req);
                 req2 = (if \<not> Chorus (Structure req1)
                         then req1\<lparr>Structure := (Structure req1)\<lparr>Chorus := True\<rparr>\<rparr> else req1)
             in Inr req2))"

text \<open>The whole handler, for a service \<open>generate\<close>: status code and body.\<close>

definition generateLyrics ::
  "(int \<Rightarrow> int) \<Rightarrow> (LyricsRequest \<Rightarrow> 'e + 'r) \<Rightarrow> string + LyricsRequest \<Rightarrow>
     int \<times> (string + 'r)" where
  "generateLyrics caseTable generate decoded =
     (case generateLyrics_request caseTable decoded of
        Inl code \<Rightarrow> (400, Inl code)
      | Inr req \<Rightarrow>
          (case generate req of
             Inl err \<Rightarrow> (500, Inl ''generation_failed'')
           | Inr response \<Rightarrow> (200, Inr response)))"

section \<open>Vocabulary of the properties\<close>

text \<open>A title header is a header line whose section name starts with \<^verbatim>\<open>title:\<close>, and
  \<open>titleOf\<close> is the title that \<^const>\<open>parseLine\<close> stores for it.\<close>

definition isTitleHeader :: "(int \<Rightarrow> int) \<Rightarrow> string \<Rightarrow> bool" where
  "isTitleHeader caseTable line =
     (isHeader line \<and> HasPrefix (sectionNameOf caseTable line) ''title:'')"

definition titleOf :: "(int \<Rightarrow> int) \<Rightarrow> string \<Rightarrow> string" where
  "titleOf caseTable line = TrimSpace (TrimPrefix (sectionNameOf caseTable line) ''title:'')"



text \<open>
  The specification's list of the ways a token exchange fails: network failure (the
  round trip or the reading of the body), a body that is not JSON, a non-empty
  \<^verbatim>\<open>error\<close> field, a status other than 200, an empty \<^verbatim>\<open>access_token\<close>.
\<close>

definition listed_failure :: "exchange \<Rightarrow> bool" where
  "listed_failure ex =
     (case ex of
        NewRequestFails \<Rightarrow> False
      | DoFails \<Rightarrow> True
      | ReadAllFails status \<Rightarrow> True
      | RespondsIllTyped status \<Rightarrow> False
      | Responds status parsed \<Rightarrow>
          (case parsed of
             None \<Rightarrow> True
           | Some tokenResp \<Rightarrow>
               Error tokenResp \<noteq> [] \<or> status \<noteq> 200 \<or> AccessToken tokenResp = []))"

text \<open>
  The specification's description of a value that resembles a secret, for a list of
  known key prefixes: it contains \<^verbatim>\<open>bearer \<close> in any capitalisation, or it starts with
  one of the prefixes, or it is longer than 20 bytes and contains \<^verbatim>\<open>secret\<close> or
  \<^verbatim>\<open>client\<close> in any capitalisation.
\<close>

definition resemblesSecret :: "(int \<Rightarrow> int) \<Rightarrow> string list \<Rightarrow> string \<Rightarrow> bool" where
  "resemblesSecret caseTable prefixes input =
     (Contains (ToLower caseTable input) ''bearer '' \<or>
      list_ex (\<lambda>prefix. HasPrefix input prefix) prefixes \<or>
      (length input > 20 \<and>
        (Contains (ToLower caseTable input) ''secret'' \<or>
         Contains (ToLower caseTable input) ''client'')))"

text \<open>
  Values for the examples. \<open>nbsp\<close>, \<open>capital_e_acute\<close> and \<open>small_e_acute\<close> are the
  UTF-8 bytes of \<^verbatim>\<open>U+00A0\<close>, \<^verbatim>\<open>U+00C9\<close> and \<^verbatim>\<open>U+00E9\<close>. \<open>latin1_table\<close> is \<^verbatim>\<open>unicode.ToLower\<close> on the runes from
  \<^verbatim>\<open>U+0080\<close> to \<^verbatim>\<open>U+00FF\<close> (the capital letters \<^verbatim>\<open>U+00C0\<close> to \<^verbatim>\<open>U+00DE\<close> without the
  multiplication sign move by 32) and leaves the others as they are. The requests are
  decoded bodies: one that the handler passes on as it is, one that leaves the structure
  out, one that asks for three verses and no chorus. The clients hold no token, no
  token and a token endpoint that \<^verbatim>\<open>url.Parse\<close> rejects (no scheme before the colon),
  and a token. \<open>example_response n\<close> is a well-formed answer of the token endpoint with
  the lifetime \<open>n\<close>.
\<close>

definition latin1_table :: "int \<Rightarrow> int" where
  "latin1_table r = (if 192 \<le> r \<and> r \<le> 222 \<and> r \<noteq> 215 then r + 32 else r)"

definition nbsp :: string where
  "nbsp = [CHR 0xC2, CHR 0xA0]"

definition capital_e_acute :: string where
  "capital_e_acute = [CHR 0xC3, CHR 0x89]"

definition small_e_acute :: string where
  "small_e_acute = [CHR 0xC3, CHR 0xA9]"

definition example_request :: LyricsRequest where
  "example_request =
     \<lparr>Keywords = [''love'', ''sunset''], Genre = ''Pop'', Emotion = ''happy'',
      Language = ''english'', Structure = \<lparr>Verses = 2, Chorus = True, Bridge = False\<rparr>\<rparr>"

definition example_unset :: LyricsRequest where
  "example_unset =
     \<lparr>Keywords = [''love'', ''sunset''], Genre = ''pop'', Emotion = ''happy'',
      Language = ''english'', Structure = \<lparr>Verses = 0, Chorus = False, Bridge = False\<rparr>\<rparr>"

definition example_no_chorus :: LyricsRequest where
  "example_no_chorus =
     \<lparr>Keywords = [''love'', ''sunset''], Genre = ''pop'', Emotion = ''happy'',
      Language = ''english'', Structure = \<lparr>Verses = 3, Chorus = False, Bridge = False\<rparr>\<rparr>"

definition example_client :: OAuthClient where
  "example_client =
     \<lparr>tokenEndpoint = ''https://sts.example.com/oauth2/token'', clientID = ''id'',
      clientSecret = ''pw'', scope = [], accessToken = [], expiresAt = 0\<rparr>"

definition example_misconfigured :: OAuthClient where
  "example_misconfigured = example_client\<lparr>tokenEndpoint := ''://sts.example.com/oauth2/token''\<rparr>"

definition example_cached :: OAuthClient where
  "example_cached = example_client\<lparr>accessToken := ''old'', expiresAt := 100000000000\<rparr>"

definition example_response :: "64 word \<Rightarrow> OAuthTokenResponse" where
  "example_response n =
     \<lparr>AccessToken = ''tok'', TokenType = ''Bearer'', ExpiresIn = n,
      Scope = [], Error = [], ErrorDesc = []\<rparr>"

section \<open>Properties of the section parser\<close>

subsection \<open>The loop, line by line\<close>

lemma isHeader_nonempty: "isHeader line \<Longrightarrow> line \<noteq> []"
  by (auto simp: isHeader_def HasPrefix_def)


lemma parseLine_title:
  "isTitleHeader tbl (TrimSpace raw) \<Longrightarrow>
   parseLine tbl s raw = s\<lparr>structure_map := saveSection s, title := titleOf tbl (TrimSpace raw),
                            currentSection := []\<rparr>"
  by (simp add: parseLine_def isTitleHeader_def titleOf_def Let_def isHeader_nonempty)

lemma parseLine_section:
  "isHeader (TrimSpace raw) \<Longrightarrow> \<not> isTitleHeader tbl (TrimSpace raw) \<Longrightarrow>
   parseLine tbl s raw = s\<lparr>structure_map := saveSection s,
                            currentSection := sectionNameOf tbl (TrimSpace raw),
                            currentContent := []\<rparr>"
  by (simp add: parseLine_def isTitleHeader_def Let_def isHeader_nonempty)

lemma parseLine_content:
  "\<not> isHeader (TrimSpace raw) \<Longrightarrow>
   parseLine tbl s raw = (if TrimSpace raw \<noteq> [] \<and> currentSection s \<noteq> []
                          then s\<lparr>currentContent := currentContent s @ [TrimSpace raw]\<rparr> else s)"
  by (simp add: parseLine_def Let_def)

lemma parseLines_append:
  "parseLines tbl s (xs @ ys) = parseLines tbl (parseLines tbl s xs) ys"
  by (induction xs arbitrary: s) simp_all

lemma parseLines_no_header:
  "currentSection s = [] \<Longrightarrow> \<forall>l\<in>set ls. \<not> isHeader (TrimSpace l) \<Longrightarrow>
   parseLines tbl s ls = s"
  by (induction ls arbitrary: s) (simp_all add: parseLine_content)

lemma parseLine_title_unchanged:
  "\<not> isTitleHeader tbl (TrimSpace l) \<Longrightarrow> title (parseLine tbl s l) = title s"
  by (cases "isHeader (TrimSpace l)") (simp_all add: parseLine_section parseLine_content)

lemma parseLines_title_unchanged:
  "\<forall>l\<in>set ls. \<not> isTitleHeader tbl (TrimSpace l) \<Longrightarrow> title (parseLines tbl s ls) = title s"
  by (induction ls arbitrary: s) (simp_all add: parseLine_title_unchanged)









subsection \<open>The title of the test text\<close>

text \<open>
  C1. For the text \<^verbatim>\<open>[Title: Love Song]\<close>, \<^verbatim>\<open>[Verse 1]\<close>, \<^verbatim>\<open>line a\<close>, \<^verbatim>\<open>line b\<close>,
  \<^verbatim>\<open>[Chorus]\<close>, \<^verbatim>\<open>line c\<close> (one per line) the sections are \<^verbatim>\<open>verse 1\<close> with the two
  lines joined by a newline and \<^verbatim>\<open>chorus\<close> with \<^verbatim>\<open>line c\<close>, as stated. The title is
  taken from the lowercased section name, so it comes out as \<^verbatim>\<open>love song\<close> and not as
  \<^verbatim>\<open>Love Song\<close>, which is what the repository's own \<^verbatim>\<open>TestParseLyrics\<close> asserts for a
  text that starts with the same title line.
\<close>

theorem parseLyrics_love_song:
  "Title (parseLyrics caseTable
     ''[Title: Love Song]\<newline>[Verse 1]\<newline>line a\<newline>line b\<newline>[Chorus]\<newline>line c'' req)
     = ''love song'' \<and>
   Title (parseLyrics caseTable
     ''[Title: Love Song]\<newline>[Verse 1]\<newline>line a\<newline>line b\<newline>[Chorus]\<newline>line c'' req)
     \<noteq> ''Love Song'' \<and>
   Structure_lyrics (parseLyrics caseTable
     ''[Title: Love Song]\<newline>[Verse 1]\<newline>line a\<newline>line b\<newline>[Chorus]\<newline>line c'' req)
     = [(''verse 1'', ''line a\<newline>line b''), (''chorus'', ''line c'')]"
  by code_simp

subsection \<open>A header that is followed by a header\<close>




text \<open>So may the fallback: nothing is stored for \<^verbatim>\<open>[verse1]\<close>, \<^verbatim>\<open>[chorus]\<close>, and the
  whole text is then filed under \<^verbatim>\<open>verse1\<close>.\<close>

lemma header_pair_meets_fallback:
  "map_of (Structure_lyrics (parseLyrics latin1_table ''[verse1]\<newline>[chorus]'' example_request))
     (sectionNameOf latin1_table (TrimSpace ''[verse1]'')) = Some ''[verse1]\<newline>[chorus]''"
  by code_simp

text \<open>A header line may start with a no-break space, which \<^verbatim>\<open>strings.TrimSpace\<close>
  removes.\<close>

lemma header_after_nbsp:
  "Structure_lyrics
     (parseLyrics latin1_table
        (''[Verse 1]\<newline>[Chorus]\<newline>text\<newline>'' @ nbsp @ ''[Verse 1]\<newline>more'') example_request)
     = [(''chorus'', ''text''), (''verse 1'', ''more'')]"
  by code_simp

subsection \<open>The fallback section\<close>

text \<open>
  C5. When the pass over the lines stores no section, the result holds the whole raw
  text under the one key \<^verbatim>\<open>verse1\<close>. A text without any header line is such a text,
  and its title is \<^verbatim>\<open>Untitled Song\<close>; more generally the title is \<^verbatim>\<open>Untitled Song\<close>
  whenever no line is a title header. A line counts as a header by what is left of it
  after \<^verbatim>\<open>strings.TrimSpace\<close>.
\<close>

theorem parseLyrics_fallback:
  "(structure_map (parseSections tbl text) = [] \<longrightarrow>
      Structure_lyrics (parseLyrics tbl text req) = [(''verse1'', text)]) \<and>
   ((\<forall>l\<in>set (Split text (CHR 0x0A)). \<not> isHeader (TrimSpace l)) \<longrightarrow>
      structure_map (parseSections tbl text) = [] \<and>
      Title (parseLyrics tbl text req) = ''Untitled Song'') \<and>
   ((\<forall>l\<in>set (Split text (CHR 0x0A)). \<not> isTitleHeader tbl (TrimSpace l)) \<longrightarrow>
      Title (parseLyrics tbl text req) = ''Untitled Song'')"
proof (intro conjI impI)
  assume "structure_map (parseSections tbl text) = []"
  then show "Structure_lyrics (parseLyrics tbl text req) = [(''verse1'', text)]"
    by (simp add: parseLyrics_def Let_def)
next
  assume nh: "\<forall>l\<in>set (Split text (CHR 0x0A)). \<not> isHeader (TrimSpace l)"
  have "parseLines tbl parse_init (Split text (CHR 0x0A)) = parse_init"
    using nh by (intro parseLines_no_header) (simp_all add: parse_init_def)
  then show "structure_map (parseSections tbl text) = []"
    and "Title (parseLyrics tbl text req) = ''Untitled Song''"
    by (simp_all add: parseSections_def parseLyrics_def Let_def saveSection_def parse_init_def)
next
  assume "\<forall>l\<in>set (Split text (CHR 0x0A)). \<not> isTitleHeader tbl (TrimSpace l)"
  from parseLines_title_unchanged [OF this, of parse_init]
  show "Title (parseLyrics tbl text req) = ''Untitled Song''"
    by (simp add: parseSections_def parseLyrics_def Let_def parse_init_def)
qed

theorem parseLyrics_fallback_witness:
  "Split ''la la la\<newline>  di da'' (CHR 0x0A) = [''la la la'', ''  di da''] \<and>
   \<not> isHeader (TrimSpace ''la la la'') \<and> \<not> isHeader (TrimSpace ''  di da'') \<and>
   structure_map (parseSections latin1_table ''la la la\<newline>  di da'') = [] \<and>
   Structure_lyrics (parseLyrics latin1_table ''la la la\<newline>  di da'' example_request)
     = [(''verse1'', ''la la la\<newline>  di da'')] \<and>
   Title (parseLyrics latin1_table ''la la la\<newline>  di da'' example_request) = ''Untitled Song''"
proof -
  have nh: "\<forall>l\<in>set (Split ''la la la\<newline>  di da'' (CHR 0x0A)). \<not> isHeader (TrimSpace l)"
    by code_simp
  have nt: "\<forall>l\<in>set (Split ''la la la\<newline>  di da'' (CHR 0x0A)).
              \<not> isTitleHeader latin1_table (TrimSpace l)"
    by code_simp
  have lines: "Split ''la la la\<newline>  di da'' (CHR 0x0A) = [''la la la'', ''  di da'']"
    by code_simp
  have "\<not> isHeader (TrimSpace ''la la la'')" "\<not> isHeader (TrimSpace ''  di da'')"
    by code_simp+
  with parseLyrics_fallback [of latin1_table "''la la la\<newline>  di da''" example_request]
    nh nt lines
  show ?thesis by blast
qed

text \<open>A line that starts with a no-break space can be a header.\<close>

lemma chorus_after_nbsp:
  "Structure_lyrics (parseLyrics latin1_table (nbsp @ ''[Chorus]\<newline>x'') example_request)
     = [(''chorus'', ''x'')]"
  by code_simp

subsection \<open>The sections are never empty\<close>

text \<open>
  C9. For every text, the empty one included, the sections returned by
  \<^verbatim>\<open>parseLyrics\<close> hold at least one entry.
\<close>

theorem parseLyrics_structure_nonempty:
  "Structure_lyrics (parseLyrics caseTable text req) \<noteq> []"
  by (simp add: parseLyrics_def Let_def)

subsection \<open>Several title headers\<close>

text \<open>
  C10. When a text has title headers, the title returned is the one of the last title
  header, lowercased and trimmed as the code does it; the titles of the earlier ones are
  overwritten, and the function returns a result for every text.
\<close>

theorem parseLyrics_last_title:
  assumes "Split text (CHR 0x0A) = pre @ l # post"
    and "isTitleHeader tbl (TrimSpace l)"
    and "\<forall>m\<in>set post. \<not> isTitleHeader tbl (TrimSpace m)"
  shows "Title (parseLyrics tbl text req) = titleOf tbl (TrimSpace l)"
proof -
  let ?s = "parseLines tbl parse_init pre"
  have "parseLines tbl parse_init (Split text (CHR 0x0A))
          = parseLines tbl (parseLine tbl ?s l) post"
    using assms(1) by (simp add: parseLines_append)
  moreover have "title (parseLines tbl (parseLine tbl ?s l) post) = title (parseLine tbl ?s l)"
    using assms(3) by (rule parseLines_title_unchanged)
  moreover have "title (parseLine tbl ?s l) = titleOf tbl (TrimSpace l)"
    using assms(2) by (simp add: parseLine_title)
  ultimately show ?thesis
    by (simp add: parseLyrics_def parseSections_def Let_def)
qed

text \<open>The last title header of this text starts with a no-break space and holds a
  capital E with an acute accent.\<close>

theorem parseLyrics_last_title_witness:
  "Split (''[Title: One]\<newline>[Verse]\<newline>a\<newline>'' @ nbsp @ ''[Title: '' @ capital_e_acute @ ''t''
            @ small_e_acute @ '']\<newline>b'') (CHR 0x0A)
     = [''[Title: One]'', ''[Verse]'', ''a'']
       @ (nbsp @ ''[Title: '' @ capital_e_acute @ ''t'' @ small_e_acute @ '']'') # [''b''] \<and>
   isTitleHeader latin1_table (TrimSpace ''[Title: One]'') \<and>
   isTitleHeader latin1_table
     (TrimSpace (nbsp @ ''[Title: '' @ capital_e_acute @ ''t'' @ small_e_acute @ '']'')) \<and>
   Title (parseLyrics latin1_table
            (''[Title: One]\<newline>[Verse]\<newline>a\<newline>'' @ nbsp @ ''[Title: '' @ capital_e_acute @ ''t''
               @ small_e_acute @ '']\<newline>b'') example_request)
     = small_e_acute @ ''t'' @ small_e_acute"
proof -
  let ?l = "nbsp @ ''[Title: '' @ capital_e_acute @ ''t'' @ small_e_acute @ '']''"
  let ?text = "''[Title: One]\<newline>[Verse]\<newline>a\<newline>'' @ nbsp @ ''[Title: '' @ capital_e_acute @ ''t''
               @ small_e_acute @ '']\<newline>b''"
  have split: "Split ?text (CHR 0x0A) = [''[Title: One]'', ''[Verse]'', ''a''] @ ?l # [''b'']"
    by code_simp
  have t1: "isTitleHeader latin1_table (TrimSpace ''[Title: One]'')" by code_simp
  have t2: "isTitleHeader latin1_table (TrimSpace ?l)" by code_simp
  have post: "\<forall>m\<in>set [''b'']. \<not> isTitleHeader latin1_table (TrimSpace m)" by code_simp
  have name: "titleOf latin1_table (TrimSpace ?l) = small_e_acute @ ''t'' @ small_e_acute"
    by code_simp
  from parseLyrics_last_title [OF split t2 post, of example_request]
  show ?thesis using split t1 t2 name by simp
qed

section \<open>Properties of the request handler\<close>

lemma generateLyrics_request_valid:
  assumes "bindingValid req" "ValidGenres (ToLower tbl (Genre req))"
    "ValidEmotions (ToLower tbl (Emotion req))" "ValidLanguages (ToLower tbl (Language req))"
  shows "generateLyrics_request tbl (Inr req)
           = Inr (req\<lparr>Structure := (Structure req)\<lparr>Chorus := True\<rparr>\<rparr>)"
proof -
  from assms(1) have v: "Verses (Structure req) \<noteq> 0"
    by (simp add: bindingValid_def)
  show ?thesis
    using assms v
    by (cases "Chorus (Structure req)")
       (auto simp add: generateLyrics_request_def ShouldBindJSON_def)
qed

text \<open>
  C6. What the handler does with a decoded request: it answers \<^verbatim>\<open>invalid_request\<close>
  when a binding tag is violated, then checks genre, emotion and language, and hands on
  every other request with \<open>Chorus = True\<close> and nothing else changed. The verses of a
  request that is handed on lie between 1 and 4, so the step that sets zero verses to 2
  never applies: a request that leaves the structure out, as two of the examples in the
  repository's \<^verbatim>\<open>README\<close> do, is answered with \<^verbatim>\<open>invalid_request\<close>. A request for three
  verses without a chorus is handed on with a chorus.
\<close>

theorem generateLyrics_request_defaults:
  "generateLyrics_request caseTable (Inr req) =
     (if \<not> bindingValid req then Inl ''invalid_request''
      else if \<not> ValidGenres (ToLower caseTable (Genre req)) then Inl ''invalid_genre''
      else if \<not> ValidEmotions (ToLower caseTable (Emotion req)) then Inl ''invalid_emotion''
      else if \<not> ValidLanguages (ToLower caseTable (Language req)) then Inl ''invalid_language''
      else Inr (req\<lparr>Structure := (Structure req)\<lparr>Chorus := True\<rparr>\<rparr>)) \<and>
   generateLyrics_request caseTable (Inr example_unset) = Inl ''invalid_request'' \<and>
   generateLyrics_request caseTable (Inr example_no_chorus)
     = Inr (example_no_chorus\<lparr>Structure := \<lparr>Verses = 3, Chorus = True, Bridge = False\<rparr>\<rparr>)"
proof (intro conjI)
  show "generateLyrics_request caseTable (Inr req) =
     (if \<not> bindingValid req then Inl ''invalid_request''
      else if \<not> ValidGenres (ToLower caseTable (Genre req)) then Inl ''invalid_genre''
      else if \<not> ValidEmotions (ToLower caseTable (Emotion req)) then Inl ''invalid_emotion''
      else if \<not> ValidLanguages (ToLower caseTable (Language req)) then Inl ''invalid_language''
      else Inr (req\<lparr>Structure := (Structure req)\<lparr>Chorus := True\<rparr>\<rparr>))"
  proof (cases "bindingValid req \<and> ValidGenres (ToLower caseTable (Genre req)) \<and>
      ValidEmotions (ToLower caseTable (Emotion req)) \<and>
      ValidLanguages (ToLower caseTable (Language req))")
    case True
    then show ?thesis by (simp add: generateLyrics_request_valid)
  next
    case False
    then show ?thesis
      by (auto simp add: generateLyrics_request_def ShouldBindJSON_def)
  qed
  show "generateLyrics_request caseTable (Inr example_unset) = Inl ''invalid_request''"
    by (simp add: generateLyrics_request_def ShouldBindJSON_def bindingValid_def example_unset_def)
  show "generateLyrics_request caseTable (Inr example_no_chorus)
     = Inr (example_no_chorus\<lparr>Structure := \<lparr>Verses = 3, Chorus = True, Bridge = False\<rparr>\<rparr>)"
    by code_simp
qed

section \<open>Properties of the redaction\<close>

lemma DecodeRune_ascii:
  "(of_char c :: int) < 128 \<Longrightarrow> DecodeRune (c # rest) = (of_char c, 1)"
  by (simp add: DecodeRune_def)

lemma EncodeRune_lower_ascii:
  "(of_char c :: int) < 128 \<Longrightarrow>
   EncodeRune (unicode_ToLower tbl (of_char c)) = [toLowerByte c]"
  by (simp add: EncodeRune_def unicode_ToLower_def toLowerByte_def Let_def)

lemma Map_string_ascii_prefix:
  "list_all (\<lambda>c. (of_char c :: int) < 128) p \<Longrightarrow>
   Map_string (unicode_ToLower tbl) (p @ rest)
     = map toLowerByte p @ Map_string (unicode_ToLower tbl) rest"
  by (induction p) (simp_all add: DecodeRune_ascii EncodeRune_lower_ascii)

lemma ToLower_ascii_prefix:
  assumes "list_all (\<lambda>c. (of_char c :: int) < 128) p"
  shows "\<exists>rest'. ToLower tbl (p @ rest) = map toLowerByte p @ rest'"
  by (simp add: ToLower_def Map_string_ascii_prefix [OF assms])

lemma HasPrefix_ToLower:
  assumes "HasPrefix input p" "list_all (\<lambda>c. (of_char c :: int) < 128) p"
  shows "HasPrefix (ToLower tbl input) (map toLowerByte p)"
proof -
  from assms(1) have "input = p @ drop (length p) input"
    by (metis HasPrefix_def append_take_drop_id)
  then obtain rest where "input = p @ rest" ..
  with ToLower_ascii_prefix [OF assms(2), of tbl rest]
  obtain rest' where "ToLower tbl input = map toLowerByte p @ rest'" by auto
  then show ?thesis by (simp add: HasPrefix_def)
qed

lemma lower_prefixes:
  "list_all (\<lambda>c. (of_char c :: int) < 128) ''sk-'' \<and> map toLowerByte ''sk-'' = ''sk-''"
  "list_all (\<lambda>c. (of_char c :: int) < 128) ''pk-'' \<and> map toLowerByte ''pk-'' = ''pk-''"
  "list_all (\<lambda>c. (of_char c :: int) < 128) ''api_'' \<and> map toLowerByte ''api_'' = ''api_''"
  "list_all (\<lambda>c. (of_char c :: int) < 128) ''token_'' \<and> map toLowerByte ''token_'' = ''token_''"
  "list_all (\<lambda>c. (of_char c :: int) < 128) ''ey'' \<and> map toLowerByte ''ey'' = ''ey''"
  "list_all (\<lambda>c. (of_char c :: int) < 128) ''access_token'' \<and>
     map toLowerByte ''access_token'' = ''access_token''"
  by code_simp+

lemma HasPrefix_lower:
  assumes "HasPrefix input p"
    and "list_all (\<lambda>c. (of_char c :: int) < 128) p \<and> map toLowerByte p = p"
  shows "HasPrefix (ToLower tbl input) p"
  using HasPrefix_ToLower [OF assms(1), of tbl] assms(2) by simp

lemma list_ex_lower:
  assumes "\<forall>q\<in>set qs. list_all (\<lambda>c. (of_char c :: int) < 128) q \<and> map toLowerByte q = q"
    and "list_ex (\<lambda>prefix. HasPrefix input prefix) qs"
  shows "list_ex (\<lambda>prefix. HasPrefix (ToLower tbl input) prefix) qs"
  using assms unfolding list_ex_iff by (blast intro: HasPrefix_lower)

lemma lower_oauth_prefixes:
  "\<forall>q\<in>set [''sk-'', ''pk-'', ''api_'', ''token_'', ''ey'', ''access_token''].
     list_all (\<lambda>c. (of_char c :: int) < 128) q \<and> map toLowerByte q = q"
  using lower_prefixes by simp

lemma lower_apikey_prefixes:
  "\<forall>q\<in>set [''sk-'', ''pk-'', ''api_'', ''token_''].
     list_all (\<lambda>c. (of_char c :: int) < 128) q \<and> map toLowerByte q = q"
  using lower_prefixes by simp

text \<open>
  C8 (as amended). In the OAuth services every value that resembles a secret is replaced
  by one of four fixed markers, whichever rule matches first; no part of the value is
  returned. In the service with the vendor's API key a value that contains
  \<^verbatim>\<open>bearer \<close> or starts with \<^verbatim>\<open>sk-\<close>, \<^verbatim>\<open>pk-\<close>, \<^verbatim>\<open>api_\<close> or \<^verbatim>\<open>token_\<close> is
  replaced by \<^verbatim>\<open>[REDACTED_API_KEY]\<close>; that function has no rule for \<^verbatim>\<open>secret\<close> and
  \<^verbatim>\<open>client\<close>.
\<close>

theorem sanitizeForLogging_redacts:
  "(resemblesSecret caseTable [''sk-'', ''pk-'', ''api_'', ''token_'', ''ey'', ''access_token'']
      input \<longrightarrow>
      sanitizeForLogging_oauth caseTable input \<in>
        set [''[REDACTED_BEARER_TOKEN]'', ''[REDACTED_API_KEY]'', ''[REDACTED_TOKEN]'',
             ''[REDACTED_CREDENTIALS]'']) \<and>
   (Contains (ToLower caseTable input) ''bearer '' \<or>
    list_ex (\<lambda>prefix. HasPrefix input prefix) [''sk-'', ''pk-'', ''api_'', ''token_''] \<longrightarrow>
      sanitizeForLogging_apikey caseTable input = ''[REDACTED_API_KEY]'')"
proof (intro conjI impI)
  assume r: "resemblesSecret caseTable
               [''sk-'', ''pk-'', ''api_'', ''token_'', ''ey'', ''access_token''] input"
  define bearer where "bearer = Contains (ToLower caseTable input) ''bearer ''"
  define sk where "sk = HasPrefix (ToLower caseTable input) ''sk-''"
  define pre where "pre = list_ex (\<lambda>prefix. HasPrefix (ToLower caseTable input) prefix)
                [''sk-'', ''pk-'', ''api_'', ''token_'', ''ey'', ''access_token'']"
  define cred where "cred = (length input > 20 \<and>
              (Contains (ToLower caseTable input) ''secret'' \<or>
               Contains (ToLower caseTable input) ''client''))"
  have "list_ex (\<lambda>prefix. HasPrefix input prefix)
          [''sk-'', ''pk-'', ''api_'', ''token_'', ''ey'', ''access_token''] \<Longrightarrow> pre"
    unfolding pre_def by (rule list_ex_lower [OF lower_oauth_prefixes])
  with r have "bearer \<or> pre \<or> cred"
    unfolding resemblesSecret_def bearer_def cred_def by blast
  moreover have "sanitizeForLogging_oauth caseTable input =
     (if bearer then ''[REDACTED_BEARER_TOKEN]''
      else if sk then ''[REDACTED_API_KEY]''
      else if pre then ''[REDACTED_TOKEN]''
      else if cred then ''[REDACTED_CREDENTIALS]''
      else input)"
    unfolding sanitizeForLogging_oauth_def bearer_def sk_def pre_def cred_def by (rule refl)
  ultimately show "sanitizeForLogging_oauth caseTable input \<in>
        set [''[REDACTED_BEARER_TOKEN]'', ''[REDACTED_API_KEY]'', ''[REDACTED_TOKEN]'',
             ''[REDACTED_CREDENTIALS]'']"
    by auto
next
  assume a: "Contains (ToLower caseTable input) ''bearer '' \<or>
    list_ex (\<lambda>prefix. HasPrefix input prefix) [''sk-'', ''pk-'', ''api_'', ''token_'']"
  define bearer where "bearer = Contains (ToLower caseTable input) ''bearer ''"
  define sk where "sk = HasPrefix (ToLower caseTable input) ''sk-''"
  define pre where "pre = list_ex (\<lambda>prefix. HasPrefix (ToLower caseTable input) prefix)
                [''sk-'', ''pk-'', ''api_'', ''token_'']"
  have "list_ex (\<lambda>prefix. HasPrefix input prefix) [''sk-'', ''pk-'', ''api_'', ''token_'']
          \<Longrightarrow> pre"
    unfolding pre_def by (rule list_ex_lower [OF lower_apikey_prefixes])
  with a have "bearer \<or> pre"
    unfolding bearer_def by blast
  moreover have "sanitizeForLogging_apikey caseTable input =
     (if bearer then ''[REDACTED_API_KEY]''
      else if sk then ''[REDACTED_API_KEY]''
      else if pre then ''[REDACTED_API_KEY]''
      else input)"
    unfolding sanitizeForLogging_apikey_def bearer_def sk_def pre_def by (rule refl)
  ultimately show "sanitizeForLogging_apikey caseTable input = ''[REDACTED_API_KEY]''"
    by auto
qed

theorem sanitizeForLogging_redacts_witness:
  "resemblesSecret latin1_table [''sk-'', ''pk-'', ''api_'', ''token_'', ''ey'', ''access_token'']
     ''my-client-secret-value-0123'' \<and>
   sanitizeForLogging_oauth latin1_table ''my-client-secret-value-0123''
     = ''[REDACTED_CREDENTIALS]'' \<and>
   Contains (ToLower latin1_table ''Authorization: Bearer abc'') ''bearer '' \<and>
   sanitizeForLogging_apikey latin1_table ''Authorization: Bearer abc'' = ''[REDACTED_API_KEY]''"
proof -
  have r: "resemblesSecret latin1_table
             [''sk-'', ''pk-'', ''api_'', ''token_'', ''ey'', ''access_token'']
             ''my-client-secret-value-0123''"
    by code_simp
  have b: "Contains (ToLower latin1_table ''Authorization: Bearer abc'') ''bearer ''"
    by code_simp
  have v: "sanitizeForLogging_oauth latin1_table ''my-client-secret-value-0123''
             = ''[REDACTED_CREDENTIALS]''"
    by code_simp
  have "sanitizeForLogging_apikey latin1_table ''Authorization: Bearer abc''
          = ''[REDACTED_API_KEY]''"
    using sanitizeForLogging_redacts [of latin1_table "''Authorization: Bearer abc''"] b
    by blast
  moreover have "sanitizeForLogging_oauth latin1_table ''my-client-secret-value-0123'' \<in>
        set [''[REDACTED_BEARER_TOKEN]'', ''[REDACTED_API_KEY]'', ''[REDACTED_TOKEN]'',
             ''[REDACTED_CREDENTIALS]'']"
    using sanitizeForLogging_redacts [of latin1_table "''my-client-secret-value-0123''"] r
    by blast
  ultimately show ?thesis using r b v by blast
qed

text \<open>The function of the API-key service returns a long value that contains
  \<^verbatim>\<open>client\<close> and \<^verbatim>\<open>secret\<close> as it is.\<close>

theorem sanitizeForLogging_redacts_counterexample:
  "resemblesSecret latin1_table [''sk-'', ''pk-'', ''api_'', ''token_'']
     ''my-client-secret-value-0123'' \<and>
   sanitizeForLogging_apikey latin1_table ''my-client-secret-value-0123''
     = ''my-client-secret-value-0123''"
  by code_simp

section \<open>Properties of the token cache\<close>

subsection \<open>Durations, and one exchange\<close>

lemma sint_seconds:
  fixes n :: "64 word"
  assumes "0 \<le> sint n" "sint n \<le> 9223372036"
  shows "sint (n * Second) = sint n * 1000000000"
proof -
  have "sint (n * Second) = signed_take_bit 63 (sint n * sint Second)"
    by (simp add: sint_word_ariths)
  moreover have "sint Second = 1000000000"
    by (simp add: Second_def)
  moreover have "signed_take_bit 63 (sint n * 1000000000) = sint n * 1000000000"
    using assms by (intro signed_take_bit_int_eq_self) auto
  ultimately show ?thesis by simp
qed

lemma Add_seconds:
  fixes n :: "64 word"
  shows "0 \<le> sint n \<Longrightarrow> sint n \<le> 9223372036 \<Longrightarrow> Add now (n * Second) = now + sint n * 1000000000"
  by (simp add: Add_def sint_seconds)

lemma Add_hour: "Add now (3600 * Second) = now + 3600 * 1000000000"
  by (simp add: Add_def Second_def)

lemma Add_buffer: "Add now (30 * Second) = now + 30 * 1000000000"
  by (simp add: Add_def Second_def)

lemma requestNewToken_ok:
  assumes "Error tokenResp = []" "AccessToken tokenResp \<noteq> []"
  shows "requestNewToken now (Responds 200 (Some tokenResp)) oc =
           \<lparr>result = Inr (AccessToken tokenResp),
            client = oc\<lparr>accessToken := AccessToken tokenResp,
                        expiresAt := Add now ((if sint (ExpiresIn tokenResp) \<le> 0 then 3600
                                               else ExpiresIn tokenResp) * Second)\<rparr>,
            httpCalls = 1\<rparr>"
  using assms by (simp add: requestNewToken_def Let_def)

lemma requestNewToken_isl:
  "isl (result (requestNewToken now ex oc)) =
     (ex = NewRequestFails \<or> (\<exists>status. ex = RespondsIllTyped status) \<or> listed_failure ex)"
proof (cases ex)
  case (Responds status parsed)
  then show ?thesis
    by (cases parsed) (simp_all add: requestNewToken_def listed_failure_def Let_def)
qed (simp_all add: requestNewToken_def listed_failure_def)

lemma requestNewToken_Inr:
  assumes "result (requestNewToken now ex oc) = Inr tok"
  shows "\<exists>tokenResp. ex = Responds 200 (Some tokenResp) \<and> Error tokenResp = [] \<and>
           AccessToken tokenResp \<noteq> [] \<and> tok = AccessToken tokenResp"
proof (cases ex)
  case (Responds status parsed)
  show ?thesis
  proof (cases parsed)
    case None
    with Responds assms show ?thesis by (simp add: requestNewToken_def)
  next
    case (Some tokenResp)
    with Responds assms show ?thesis
      by (simp add: requestNewToken_def Let_def split: if_splits)
  qed
qed (use assms in \<open>simp_all add: requestNewToken_def\<close>)

lemma requestNewToken_failed:
  assumes "isl (result (requestNewToken now ex oc))"
  shows "client (requestNewToken now ex oc) = oc"
proof (cases ex)
  case (Responds status parsed)
  show ?thesis
  proof (cases parsed)
    case None
    with Responds show ?thesis by (simp add: requestNewToken_def)
  next
    case (Some tokenResp)
    with Responds assms show ?thesis
      by (simp add: requestNewToken_def Let_def split: if_splits)
  qed
qed (simp_all add: requestNewToken_def)

lemma requestNewToken_httpCalls: "httpCalls (requestNewToken now ex oc) \<le> 1"
proof (cases ex)
  case (Responds status parsed)
  then show ?thesis
    by (cases parsed) (simp_all add: requestNewToken_def Let_def)
qed (simp_all add: requestNewToken_def)

subsection \<open>The expiry that is stored\<close>

text \<open>
  C2 (as amended). After a successful exchange the stored expiry is the clock reading
  plus 3600 seconds when the endpoint's \<^verbatim>\<open>expires_in\<close> is zero or negative, and the
  clock reading plus \<^verbatim>\<open>expires_in\<close> seconds when it is positive (up to 9223372036, the
  largest number of seconds whose nanoseconds fit an \<^verbatim>\<open>int64\<close>). A positive
  \<^verbatim>\<open>expires_in\<close> below 3600 is kept, not raised to 3600.
\<close>

theorem requestNewToken_expiry:
  assumes "result (requestNewToken now ex oc) = Inr tok"
  shows "\<exists>status tokenResp. ex = Responds status (Some tokenResp) \<and>
           (sint (ExpiresIn tokenResp) \<le> 0 \<longrightarrow>
              expiresAt (client (requestNewToken now ex oc)) = now + 3600 * 1000000000) \<and>
           (0 < sint (ExpiresIn tokenResp) \<and> sint (ExpiresIn tokenResp) \<le> 9223372036 \<longrightarrow>
              expiresAt (client (requestNewToken now ex oc)) =
                now + sint (ExpiresIn tokenResp) * 1000000000)"
proof -
  from requestNewToken_Inr [OF assms] obtain tokenResp where
    ex: "ex = Responds 200 (Some tokenResp)" and
    ok: "Error tokenResp = []" "AccessToken tokenResp \<noteq> []"
    by blast
  have "sint (ExpiresIn tokenResp) \<le> 0 \<Longrightarrow>
          expiresAt (client (requestNewToken now ex oc)) = now + 3600 * 1000000000"
    unfolding ex requestNewToken_ok [OF ok] by (simp add: Add_hour)
  moreover have "0 < sint (ExpiresIn tokenResp) \<Longrightarrow> sint (ExpiresIn tokenResp) \<le> 9223372036 \<Longrightarrow>
          expiresAt (client (requestNewToken now ex oc)) = now + sint (ExpiresIn tokenResp) * 1000000000"
    unfolding ex requestNewToken_ok [OF ok] by (simp add: Add_seconds)
  ultimately show ?thesis using ex by blast
qed

theorem requestNewToken_expiry_witness:
  "result (requestNewToken 5 (Responds 200 (Some (example_response 7200))) example_client) = Inr ''tok'' \<and>
   expiresAt (client (requestNewToken 5 (Responds 200 (Some (example_response 7200))) example_client))
     = 5 + 7200 * 1000000000 \<and>
   result (requestNewToken 5 (Responds 200 (Some (example_response 0))) example_client) = Inr ''tok'' \<and>
   expiresAt (client (requestNewToken 5 (Responds 200 (Some (example_response 0))) example_client))
     = 5 + 3600 * 1000000000"
proof -
  have r1: "result (requestNewToken 5 (Responds 200 (Some (example_response 7200))) example_client) = Inr ''tok''"
    by (simp add: requestNewToken_def example_response_def)
  have r2: "result (requestNewToken 5 (Responds 200 (Some (example_response 0))) example_client) = Inr ''tok''"
    by (simp add: requestNewToken_def example_response_def)
  from requestNewToken_expiry [OF r1]
  have e1: "expiresAt (client (requestNewToken 5 (Responds 200 (Some (example_response 7200))) example_client))
     = 5 + 7200 * 1000000000"
    by (auto simp: example_response_def)
  from requestNewToken_expiry [OF r2]
  have e2: "expiresAt (client (requestNewToken 5 (Responds 200 (Some (example_response 0))) example_client))
     = 5 + 3600 * 1000000000"
    by (auto simp: example_response_def)
  from r1 r2 e1 e2 show ?thesis by blast
qed

text \<open>With \<^verbatim>\<open>expires_in = 60\<close> the token expires after 60 seconds, not after
  \<open>max 60 3600\<close>.\<close>

theorem requestNewToken_expiry_counterexample:
  "result (requestNewToken 0 (Responds 200 (Some (example_response 60))) example_client) = Inr ''tok'' \<and>
   expiresAt (client (requestNewToken 0 (Responds 200 (Some (example_response 60))) example_client))
     = 0 + 60 * 1000000000 \<and>
   expiresAt (client (requestNewToken 0 (Responds 200 (Some (example_response 60))) example_client))
     \<noteq> 0 + max 60 3600 * 1000000000"
  by (simp add: requestNewToken_def example_response_def example_client_def Add_def Second_def)

subsection \<open>When the exchange fails\<close>

text \<open>
  C7 (as amended). The exchange fails exactly when the request cannot be built from
  the token endpoint, or the body is JSON that does not fit the fields of the token
  response, or one of the listed failures holds: the round trip or the reading of the
  body fails, the body is not JSON, the \<^verbatim>\<open>error\<close> field is not empty, the status is not
  200, or \<^verbatim>\<open>access_token\<close> is empty. A failed exchange leaves the client as it was.
  Otherwise the exchange returns the non-empty access token and stores it.
  \<^verbatim>\<open>httpClient.Do\<close> is called at most once.
\<close>

theorem requestNewToken_failure_modes:
  "(isl (result (requestNewToken now ex oc)) =
      (ex = NewRequestFails \<or> (\<exists>status. ex = RespondsIllTyped status) \<or> listed_failure ex)) \<and>
   (isl (result (requestNewToken now ex oc)) \<longrightarrow> client (requestNewToken now ex oc) = oc) \<and>
   (\<not> isl (result (requestNewToken now ex oc)) \<longrightarrow>
      (\<exists>tokenResp. ex = Responds 200 (Some tokenResp) \<and> AccessToken tokenResp \<noteq> [] \<and>
         result (requestNewToken now ex oc) = Inr (AccessToken tokenResp) \<and>
         accessToken (client (requestNewToken now ex oc)) = AccessToken tokenResp)) \<and>
   httpCalls (requestNewToken now ex oc) \<le> 1"
proof (intro conjI impI)
  show "isl (result (requestNewToken now ex oc)) =
      (ex = NewRequestFails \<or> (\<exists>status. ex = RespondsIllTyped status) \<or> listed_failure ex)"
    by (rule requestNewToken_isl)
  show "httpCalls (requestNewToken now ex oc) \<le> 1"
    by (rule requestNewToken_httpCalls)
next
  assume "isl (result (requestNewToken now ex oc))"
  then show "client (requestNewToken now ex oc) = oc"
    by (rule requestNewToken_failed)
next
  assume "\<not> isl (result (requestNewToken now ex oc))"
  then obtain tok where "result (requestNewToken now ex oc) = Inr tok"
    by (cases "result (requestNewToken now ex oc)") simp_all
  from requestNewToken_Inr [OF this] obtain tokenResp where
    ex: "ex = Responds 200 (Some tokenResp)" and
    ok: "Error tokenResp = []" "AccessToken tokenResp \<noteq> []"
    by blast
  show "\<exists>tokenResp. ex = Responds 200 (Some tokenResp) \<and> AccessToken tokenResp \<noteq> [] \<and>
         result (requestNewToken now ex oc) = Inr (AccessToken tokenResp) \<and>
         accessToken (client (requestNewToken now ex oc)) = AccessToken tokenResp"
    using ex ok by (simp add: requestNewToken_ok [OF ok])
qed

theorem requestNewToken_failure_modes_witness:
  "isl (result (requestNewToken 0 (Responds 503 None) example_client)) \<and>
   client (requestNewToken 0 (Responds 503 None) example_client) = example_client \<and>
   isl (result (requestNewToken 0 (RespondsIllTyped 200) example_client)) \<and>
   client (requestNewToken 0 (RespondsIllTyped 200) example_client) = example_client \<and>
   \<not> isl (result (requestNewToken 0 (Responds 200 (Some (example_response 60))) example_client)) \<and>
   result (requestNewToken 0 (Responds 200 (Some (example_response 60))) example_client) = Inr ''tok'' \<and>
   accessToken (client (requestNewToken 0 (Responds 200 (Some (example_response 60))) example_client))
     = ''tok''"
proof -
  have f: "isl (result (requestNewToken 0 (Responds 503 None) example_client))"
    by (simp add: requestNewToken_def)
  have g: "isl (result (requestNewToken 0 (RespondsIllTyped 200) example_client))"
    using requestNewToken_failure_modes [of 0 "RespondsIllTyped 200" example_client] by blast
  have s: "\<not> isl (result (requestNewToken 0 (Responds 200 (Some (example_response 60))) example_client))"
    by (simp add: requestNewToken_def example_response_def)
  have c: "client (requestNewToken 0 (Responds 503 None) example_client) = example_client"
    using requestNewToken_failure_modes [of 0 "Responds 503 None" example_client] f by blast
  have d: "client (requestNewToken 0 (RespondsIllTyped 200) example_client) = example_client"
    using requestNewToken_failure_modes [of 0 "RespondsIllTyped 200" example_client] g by blast
  have "\<exists>tokenResp. Responds 200 (Some (example_response 60)) = Responds 200 (Some tokenResp) \<and>
          AccessToken tokenResp \<noteq> [] \<and>
          result (requestNewToken 0 (Responds 200 (Some (example_response 60))) example_client)
            = Inr (AccessToken tokenResp) \<and>
          accessToken (client (requestNewToken 0 (Responds 200 (Some (example_response 60))) example_client))
            = AccessToken tokenResp"
    using requestNewToken_failure_modes [of 0 "Responds 200 (Some (example_response 60))" example_client] s
    by blast
  then have "result (requestNewToken 0 (Responds 200 (Some (example_response 60))) example_client) = Inr ''tok''"
    "accessToken (client (requestNewToken 0 (Responds 200 (Some (example_response 60))) example_client)) = ''tok''"
    by (auto simp: example_response_def)
  with f g s c d show ?thesis by blast
qed

text \<open>A token endpoint that is not a URL makes the exchange fail before
  \<^verbatim>\<open>httpClient.Do\<close> is called, which is none of the listed failures.\<close>

theorem requestNewToken_failure_modes_counterexample:
  "result (requestNewToken 0 NewRequestFails example_misconfigured) = Inl CreateRequestFailed \<and>
   httpCalls (requestNewToken 0 NewRequestFails example_misconfigured) = 0 \<and>
   \<not> listed_failure NewRequestFails"
  by (simp add: requestNewToken_def listed_failure_def)

text \<open>Nor is a body such as \<^verbatim>\<open>{"access_token":"t","expires_in":"3600"}\<close>, which is
  JSON and which \<^verbatim>\<open>json.Unmarshal\<close> rejects.\<close>

lemma ill_typed_body_fails:
  "result (requestNewToken 0 (RespondsIllTyped 200) example_client) = Inl ParseResponseFailed \<and>
   \<not> listed_failure (RespondsIllTyped 200)"
  by (simp add: requestNewToken_def listed_failure_def)

subsection \<open>The margin before the expiry\<close>

text \<open>
  C3 (as amended). A token that \<^verbatim>\<open>GetAccessToken\<close> returns is the one the client
  holds, and it is not empty. When it comes from the cache (under the read lock, or at
  the second check under the write lock), the clock reading of that check plus 30
  seconds is before the stored expiry. A freshly exchanged token is returned without
  such a check. Its expiry is the clock reading plus the nanoseconds of the \<^verbatim>\<open>int64\<close>
  product of \<^verbatim>\<open>time.Second\<close> and the lifetime, which is 3600 when \<^verbatim>\<open>expires_in\<close> is
  zero or negative and \<^verbatim>\<open>expires_in\<close> otherwise. So the margin of 30 seconds holds for
  it when \<^verbatim>\<open>expires_in\<close> is zero or negative (the expiry is 3600 seconds away), fails
  when \<^verbatim>\<open>expires_in\<close> is between 1 and 30, and holds when \<^verbatim>\<open>expires_in\<close> is between 31
  and 9223372036 (the expiry is \<^verbatim>\<open>expires_in\<close> seconds away); above that the product
  wraps around.
\<close>

theorem GetAccessToken_expiry_margin:
  assumes "result (GetAccessToken now1 now2 now3 ex oc1 oc2) = Inr tok"
  shows "tok = accessToken (client (GetAccessToken now1 now2 now3 ex oc1 oc2)) \<and> tok \<noteq> [] \<and>
         (tokenFresh now1 oc1 \<longrightarrow>
            now1 + 30 * 1000000000
              < expiresAt (client (GetAccessToken now1 now2 now3 ex oc1 oc2))) \<and>
         (\<not> tokenFresh now1 oc1 \<and> tokenFresh now2 oc2 \<longrightarrow>
            now2 + 30 * 1000000000
              < expiresAt (client (GetAccessToken now1 now2 now3 ex oc1 oc2))) \<and>
         (\<not> tokenFresh now1 oc1 \<and> \<not> tokenFresh now2 oc2 \<longrightarrow>
            (\<exists>tokenResp. ex = Responds 200 (Some tokenResp) \<and>
               expiresAt (client (GetAccessToken now1 now2 now3 ex oc1 oc2))
                 = now3 + sint ((if sint (ExpiresIn tokenResp) \<le> 0 then 3600
                                 else ExpiresIn tokenResp) * Second) \<and>
               (sint (ExpiresIn tokenResp) \<le> 0 \<longrightarrow>
                  expiresAt (client (GetAccessToken now1 now2 now3 ex oc1 oc2))
                    = now3 + 3600 * 1000000000 \<and>
                  now3 + 30 * 1000000000
                    < expiresAt (client (GetAccessToken now1 now2 now3 ex oc1 oc2))) \<and>
               (0 < sint (ExpiresIn tokenResp) \<and> sint (ExpiresIn tokenResp) \<le> 30 \<longrightarrow>
                  expiresAt (client (GetAccessToken now1 now2 now3 ex oc1 oc2))
                    = now3 + sint (ExpiresIn tokenResp) * 1000000000 \<and>
                  \<not> now3 + 30 * 1000000000
                      < expiresAt (client (GetAccessToken now1 now2 now3 ex oc1 oc2))) \<and>
               (30 < sint (ExpiresIn tokenResp) \<and> sint (ExpiresIn tokenResp) \<le> 9223372036 \<longrightarrow>
                  expiresAt (client (GetAccessToken now1 now2 now3 ex oc1 oc2))
                    = now3 + sint (ExpiresIn tokenResp) * 1000000000 \<and>
                  now3 + 30 * 1000000000
                    < expiresAt (client (GetAccessToken now1 now2 now3 ex oc1 oc2)))))"
proof (cases "tokenFresh now1 oc1")
  case True
  then have "GetAccessToken now1 now2 now3 ex oc1 oc2
               = \<lparr>result = Inr (accessToken oc1), client = oc1, httpCalls = 0\<rparr>"
    by (simp add: GetAccessToken_def)
  with True assms show ?thesis
    by (auto simp: tokenFresh_def Before_def Add_buffer)
next
  case stale1: False
  show ?thesis
  proof (cases "tokenFresh now2 oc2")
    case True
    with stale1 have "GetAccessToken now1 now2 now3 ex oc1 oc2
               = \<lparr>result = Inr (accessToken oc2), client = oc2, httpCalls = 0\<rparr>"
      by (simp add: GetAccessToken_def)
    with True stale1 assms show ?thesis
      by (auto simp: tokenFresh_def Before_def Add_buffer)
  next
    case stale2: False
    with stale1 have eq: "GetAccessToken now1 now2 now3 ex oc1 oc2 = requestNewToken now3 ex oc2"
      by (simp add: GetAccessToken_def)
    from assms have "result (requestNewToken now3 ex oc2) = Inr tok"
      by (simp add: eq)
    from requestNewToken_Inr [OF this] obtain tokenResp where
      ex: "ex = Responds 200 (Some tokenResp)" and
      ok: "Error tokenResp = []" "AccessToken tokenResp \<noteq> []" and
      tok: "tok = AccessToken tokenResp"
      by blast
    let ?e = "expiresAt (client (GetAccessToken now1 now2 now3 ex oc1 oc2))"
    have new: "GetAccessToken now1 now2 now3 ex oc1 oc2 =
           \<lparr>result = Inr (AccessToken tokenResp),
            client = oc2\<lparr>accessToken := AccessToken tokenResp,
                         expiresAt := Add now3 ((if sint (ExpiresIn tokenResp) \<le> 0 then 3600
                                                 else ExpiresIn tokenResp) * Second)\<rparr>,
            httpCalls = 1\<rparr>"
      using eq requestNewToken_ok [OF ok, of now3 oc2] by (simp add: ex)
    have a: "tok = accessToken (client (GetAccessToken now1 now2 now3 ex oc1 oc2))" "tok \<noteq> []"
      using tok ok by (simp_all add: new)
    have g: "?e = now3 + sint ((if sint (ExpiresIn tokenResp) \<le> 0 then 3600
                                 else ExpiresIn tokenResp) * Second)"
      by (simp add: new Add_def)
    have b: "sint (ExpiresIn tokenResp) \<le> 0 \<Longrightarrow> ?e = now3 + 3600 * 1000000000"
      by (simp add: new Add_hour)
    have c: "0 < sint (ExpiresIn tokenResp) \<Longrightarrow> sint (ExpiresIn tokenResp) \<le> 9223372036 \<Longrightarrow>
               ?e = now3 + sint (ExpiresIn tokenResp) * 1000000000"
      by (simp add: new Add_seconds)
    have b': "sint (ExpiresIn tokenResp) \<le> 0 \<Longrightarrow> now3 + 30 * 1000000000 < ?e"
      using b by simp
    have c1: "0 < sint (ExpiresIn tokenResp) \<Longrightarrow> sint (ExpiresIn tokenResp) \<le> 30 \<Longrightarrow>
               ?e = now3 + sint (ExpiresIn tokenResp) * 1000000000 \<and>
               \<not> now3 + 30 * 1000000000 < ?e"
      using c by simp
    have c2: "30 < sint (ExpiresIn tokenResp) \<Longrightarrow> sint (ExpiresIn tokenResp) \<le> 9223372036 \<Longrightarrow>
               ?e = now3 + sint (ExpiresIn tokenResp) * 1000000000 \<and>
               now3 + 30 * 1000000000 < ?e"
      using c by simp
    from stale1 stale2 a g b b' c1 c2 ex show ?thesis by blast
  qed
qed

theorem GetAccessToken_expiry_margin_witness:
  "result (GetAccessToken 0 1 2 DoFails example_cached example_cached) = Inr ''old'' \<and>
   0 + 30 * 1000000000
     < expiresAt (client (GetAccessToken 0 1 2 DoFails example_cached example_cached)) \<and>
   result (GetAccessToken 0 1 2 DoFails example_client example_cached) = Inr ''old'' \<and>
   1 + 30 * 1000000000
     < expiresAt (client (GetAccessToken 0 1 2 DoFails example_client example_cached)) \<and>
   result (GetAccessToken 0 1 2 (Responds 200 (Some (example_response 60)))
     example_client example_client) = Inr ''tok'' \<and>
   2 + 30 * 1000000000
     < expiresAt (client (GetAccessToken 0 1 2 (Responds 200 (Some (example_response 60)))
         example_client example_client)) \<and>
   result (GetAccessToken 0 1 2 (Responds 200 (Some (example_response 0)))
     example_client example_client) = Inr ''tok'' \<and>
   expiresAt (client (GetAccessToken 0 1 2 (Responds 200 (Some (example_response 0)))
         example_client example_client)) = 2 + 3600 * 1000000000 \<and>
   result (GetAccessToken 0 1 2 (Responds 200 (Some (example_response 30)))
     example_client example_client) = Inr ''tok'' \<and>
   \<not> 2 + 30 * 1000000000
     < expiresAt (client (GetAccessToken 0 1 2 (Responds 200 (Some (example_response 30)))
         example_client example_client))"
proof -
  have f0: "tokenFresh 0 example_cached" "tokenFresh 1 example_cached"
    by (simp_all add: tokenFresh_def example_cached_def example_client_def Before_def Add_def Second_def)
  have s0: "\<not> tokenFresh 0 example_client" "\<not> tokenFresh 1 example_client"
    by (simp_all add: tokenFresh_def example_client_def)
  have r1: "result (GetAccessToken 0 1 2 DoFails example_cached example_cached) = Inr ''old''"
    using f0 by (simp add: GetAccessToken_def example_cached_def)
  have r2: "result (GetAccessToken 0 1 2 DoFails example_client example_cached) = Inr ''old''"
    using f0 s0 by (simp add: GetAccessToken_def example_cached_def)
  have r3: "result (GetAccessToken 0 1 2 (Responds 200 (Some (example_response n)))
              example_client example_client) = Inr ''tok''" for n
    using s0 by (simp add: GetAccessToken_def requestNewToken_def example_response_def)
  have e1: "0 + 30 * 1000000000
     < expiresAt (client (GetAccessToken 0 1 2 DoFails example_cached example_cached))"
    using GetAccessToken_expiry_margin [OF r1] f0 by simp
  have e2: "1 + 30 * 1000000000
     < expiresAt (client (GetAccessToken 0 1 2 DoFails example_client example_cached))"
    using GetAccessToken_expiry_margin [OF r2] f0 s0 by simp
  have e3: "2 + 30 * 1000000000
     < expiresAt (client (GetAccessToken 0 1 2 (Responds 200 (Some (example_response 60)))
         example_client example_client))"
    using GetAccessToken_expiry_margin [OF r3 [of 60]] s0 by (auto simp: example_response_def)
  have e4: "expiresAt (client (GetAccessToken 0 1 2 (Responds 200 (Some (example_response 0)))
         example_client example_client)) = 2 + 3600 * 1000000000"
    using GetAccessToken_expiry_margin [OF r3 [of 0]] s0 by (auto simp: example_response_def)
  have e5: "\<not> 2 + 30 * 1000000000
     < expiresAt (client (GetAccessToken 0 1 2 (Responds 200 (Some (example_response 30)))
         example_client example_client))"
    using GetAccessToken_expiry_margin [OF r3 [of 30]] s0 by (auto simp: example_response_def)
  from r1 r2 r3 [of 60] r3 [of 0] r3 [of 30] e1 e2 e3 e4 e5 show ?thesis by blast
qed

text \<open>A fresh token with \<^verbatim>\<open>expires_in = 10\<close> is returned although it expires within
  30 seconds.\<close>

theorem GetAccessToken_expiry_margin_counterexample:
  "result (GetAccessToken 0 0 0 (Responds 200 (Some (example_response 10)))
     example_client example_client) = Inr ''tok'' \<and>
   expiresAt (client (GetAccessToken 0 0 0 (Responds 200 (Some (example_response 10)))
     example_client example_client)) = 10 * 1000000000 \<and>
   \<not> (0 + 30 * 1000000000 <
        expiresAt (client (GetAccessToken 0 0 0 (Responds 200 (Some (example_response 10)))
          example_client example_client)))"
  by (simp add: GetAccessToken_def tokenFresh_def requestNewToken_def example_response_def
        example_client_def Add_def Second_def)

end
